theory Spec2Isabelle
  imports Main
begin

section \<open>Data model of the signaling server\<close>

text \<open>
  The embedding follows \<^verbatim>\<open>src/signaling_server/server.py\<close>. Every handler of
  \<^verbatim>\<open>ConnectionManager\<close> is one function on the server state; a handler that can
  raise returns the exception next to the state it leaves behind, because the
  manager is a module-level object that outlives the failing connection task.
  Each handler is run to completion: the interleaving of coroutines at the
  \<^verbatim>\<open>await\<close> points is not part of the model.
\<close>

text \<open>Decoded JSON values; the negotiation payloads are of this type and are never inspected.\<close>

datatype json =
    JNull
  | JBool bool
  | JNum int
  | JStr string
  | JArr "json list"
  | JObj "(string \<times> json) list"

text \<open>The dictionaries handed to \<^verbatim>\<open>send_json\<close>, one constructor per \<^verbatim>\<open>type\<close> value,
  with the remaining keys of the dictionary as arguments in the order of the source.\<close>

datatype message =
    server_login bool
  | server_userlist "(string \<times> string) list"
  | server_nouser bool
  | server_offer json string
  | server_alreadyinroom bool string
  | server_answer json
  | server_candidate json
  | server_userwanttoleave
  | server_busyuser
  | server_userready bool string
  | server_pong string
  | server_error string

datatype WebSocketState = CONNECTING | CONNECTED | DISCONNECTED

text \<open>An attribute attached to an object at run time: it does not exist before its first
  assignment (reading it raises \<^verbatim>\<open>AttributeError\<close>), afterwards it holds \<^verbatim>\<open>None\<close> or a string.\<close>

datatype attribute = Unset | PyNone | PyStr string

text \<open>A \<^verbatim>\<open>WebSocket\<close> object. \<open>name\<close> is \<open>None\<close> while the attribute has not been
  assigned; once assigned it is a string (\<^verbatim>\<open>username: str\<close>).\<close>

record WebSocket =
  client_state :: WebSocketState
  name :: "string option"
  otherName :: attribute

text \<open>Connection objects are shared between the registry and the running handlers, so they
  live in a store and are referred to by identity.\<close>

type_synonym conn = nat

record server =
  active_connections :: "(string \<times> conn) list"
  online_users :: "(string \<times> string) list"
  sockets :: "conn \<Rightarrow> WebSocket"
  sent :: "(conn \<times> message) list"

datatype error = KeyError string | AttributeError string | TypeError

text \<open>The incoming dictionary \<^verbatim>\<open>data\<close>, by the keys the endpoint reads. A field is \<open>None\<close>
  when the key is missing; \<open>msg_type\<close> is the result of \<^verbatim>\<open>data.get('type')\<close>, which is
  \<^verbatim>\<open>None\<close> for a missing key as well. Names are strings, as the handlers declare
  (\<^verbatim>\<open>username: str\<close>).\<close>

record envelope =
  msg_type :: "string option"
  msg_name :: "string option"
  msg_offer :: "json option"
  msg_answer :: "json option"
  msg_candidate :: "json option"

section \<open>Python dictionaries\<close>

text \<open>A \<^verbatim>\<open>dict\<close> with string keys keeps insertion order: assigning to a present key
  replaces the value in place, assigning to a new key appends.\<close>

fun dict_set :: "string \<Rightarrow> 'v \<Rightarrow> (string \<times> 'v) list \<Rightarrow> (string \<times> 'v) list" where
  "dict_set k v [] = [(k, v)]"
| "dict_set k v ((k', v') # d) = (if k' = k then (k, v) # d else (k', v') # dict_set k v d)"

definition dict_get :: "string \<Rightarrow> (string \<times> 'v) list \<Rightarrow> 'v option" where
  "dict_get k d = map_of d k"

definition dict_contains :: "string \<Rightarrow> (string \<times> 'v) list \<Rightarrow> bool" where
  "dict_contains k d = (dict_get k d \<noteq> None)"

text \<open>\<^verbatim>\<open>pop(key, None)\<close> accepts any hashable object as the key. The two kinds that reach it
  are strings and \<^verbatim>\<open>WebSocket\<close> objects; a \<^verbatim>\<open>WebSocket\<close> hashes and compares by identity
  and so is never equal to a string key.\<close>

datatype pyobject = Str string | Socket conn

definition dict_pop :: "pyobject \<Rightarrow> (string \<times> 'v) list \<Rightarrow> (string \<times> 'v) list" where
  "dict_pop key d = filter (\<lambda>(k, v). Str k \<noteq> key) d"

section \<open>ConnectionManager\<close>

definition init :: server where
  "init = \<lparr> active_connections = [], online_users = [],
            sockets = (\<lambda>c. \<lparr> client_state = CONNECTING, name = None, otherName = Unset \<rparr>),
            sent = [] \<rparr>"

text \<open>\<^verbatim>\<open>connection.accept()\<close> puts the socket into the connected state.\<close>

definition connect :: "conn \<Rightarrow> server \<Rightarrow> server" where
  "connect connection s =
     s\<lparr>sockets := (sockets s)(connection := (sockets s connection)\<lparr>client_state := CONNECTED\<rparr>)\<rparr>"

definition set_otherName :: "conn \<Rightarrow> attribute \<Rightarrow> server \<Rightarrow> server" where
  "set_otherName connection v s =
     s\<lparr>sockets := (sockets s)(connection := (sockets s connection)\<lparr>otherName := v\<rparr>)\<rparr>"

definition register_user_connection :: "string \<Rightarrow> conn \<Rightarrow> server \<Rightarrow> server" where
  "register_user_connection username connection s =
     s\<lparr>active_connections := dict_set username connection (active_connections s),
       sockets := (sockets s)(connection :=
                     (sockets s connection)\<lparr>name := Some username, otherName := PyNone\<rparr>)\<rparr>"

definition update_user_status :: "string \<Rightarrow> string \<Rightarrow> server \<Rightarrow> server" where
  "update_user_status username status s =
     s\<lparr>online_users := dict_set username status (online_users s)\<rparr>"

definition get_user_status :: "string \<Rightarrow> server \<Rightarrow> string option" where
  "get_user_status username s = dict_get username (online_users s)"

text \<open>The key handed to \<^verbatim>\<open>pop\<close> is the connection object itself.\<close>

definition disconnect :: "conn \<Rightarrow> server \<Rightarrow> server" where
  "disconnect connection s =
     s\<lparr>active_connections := dict_pop (Socket connection) (active_connections s)\<rparr>"

text \<open>\<open>sent\<close> is the log of the dictionaries passed to \<^verbatim>\<open>send_json\<close>, oldest first.\<close>

definition send_message :: "conn \<Rightarrow> message \<Rightarrow> server \<Rightarrow> server" where
  "send_message connection message s =
     (if client_state (sockets s connection) = CONNECTED
      then s\<lparr>sent := sent s @ [(connection, message)]\<rparr> else s)"

definition broadcast :: "message \<Rightarrow> server \<Rightarrow> server" where
  "broadcast message s =
     fold (\<lambda>connection. send_message connection message) (map snd (active_connections s)) s"

definition update_users_list :: "server \<Rightarrow> server" where
  "update_users_list s = broadcast (server_userlist (online_users s)) s"

definition login_user :: "string \<Rightarrow> conn \<Rightarrow> server \<Rightarrow> error option \<times> server" where
  "login_user username connection s =
     (if dict_contains username (active_connections s)
      then (None, send_message connection (server_login False) s)
      else
        let s1 = register_user_connection username connection s;
            s2 = update_user_status username ''online'' s1;
            s3 = send_message connection (server_login True) s2
        in (None, update_users_list s3))"

definition send_offer :: "string \<Rightarrow> json \<Rightarrow> conn \<Rightarrow> server \<Rightarrow> error option \<times> server" where
  "send_offer username offer connection s =
     (case dict_get username (active_connections s) of
        None \<Rightarrow> (None, send_message connection (server_nouser False) s)
      | Some conn \<Rightarrow>
          (case otherName (sockets s conn) of
             Unset \<Rightarrow> (Some (AttributeError ''otherName''), s)
           | PyNone \<Rightarrow>
               (case name (sockets s connection) of
                  None \<Rightarrow> (Some (AttributeError ''name''), s)
                | Some cname \<Rightarrow> (None, send_message conn (server_offer offer cname) s))
           | PyStr p \<Rightarrow>
               (None, send_message connection (server_alreadyinroom True username) s)))"

definition send_answer :: "string \<Rightarrow> json \<Rightarrow> server \<Rightarrow> error option \<times> server" where
  "send_answer username answer s =
     (case dict_get username (active_connections s) of
        None \<Rightarrow> (None, s)
      | Some conn \<Rightarrow> (None, send_message conn (server_answer answer) s))"

definition send_candidate_request :: "string \<Rightarrow> json \<Rightarrow> server \<Rightarrow> error option \<times> server" where
  "send_candidate_request username candidate s =
     (case dict_get username (active_connections s) of
        None \<Rightarrow> (None, s)
      | Some conn \<Rightarrow>
          (case otherName (sockets s conn) of
             Unset \<Rightarrow> (Some (AttributeError ''otherName''), s)
           | PyNone \<Rightarrow> (None, s)
           | PyStr p \<Rightarrow> (None, send_message conn (server_candidate candidate) s)))"

definition leave :: "string \<Rightarrow> conn \<Rightarrow> server \<Rightarrow> error option \<times> server" where
  "leave username connection s =
     (case dict_get username (active_connections s) of
        None \<Rightarrow> (None, s)
      | Some conn \<Rightarrow>
          let s1 = send_message conn server_userwanttoleave s;
              s2 = send_message connection server_userwanttoleave s1;
              s3 = update_user_status username ''online'' s2
          in (case name (sockets s3 connection) of
                None \<Rightarrow> (Some (AttributeError ''name''), s3)
              | Some cname \<Rightarrow>
                  let s4 = update_user_status cname ''online'' s3;
                      s5 = set_otherName conn PyNone s4;
                      s6 = set_otherName connection PyNone s5
                  in (None, update_users_list s6)))"

definition busy :: "string \<Rightarrow> server \<Rightarrow> error option \<times> server" where
  "busy username s =
     (case dict_get username (active_connections s) of
        None \<Rightarrow> (None, s)
      | Some conn \<Rightarrow> (None, send_message conn server_busyuser s))"

definition want_to_call :: "string \<Rightarrow> conn \<Rightarrow> server \<Rightarrow> error option \<times> server" where
  "want_to_call username connection s =
     (case dict_get username (active_connections s) of
        Some conn \<Rightarrow>
          (case otherName (sockets s conn) of
             Unset \<Rightarrow> (Some (AttributeError ''otherName''), s)
           | PyNone \<Rightarrow>
               (None, send_message connection (server_alreadyinroom False username) s)
           | PyStr p \<Rightarrow>
               (if get_user_status username s = Some ''busy''
                then (None, send_message connection (server_alreadyinroom True username) s)
                else (None, send_message connection (server_alreadyinroom False username) s)))
      | None \<Rightarrow> (None, send_message connection (server_nouser False) s))"

definition handle_ready :: "string \<Rightarrow> conn \<Rightarrow> server \<Rightarrow> error option \<times> server" where
  "handle_ready username connection s =
     (case dict_get username (active_connections s) of
        None \<Rightarrow> (None, s)
      | Some conn \<Rightarrow>
          let s1 = set_otherName connection (PyStr username) s
          in (case name (sockets s1 connection) of
                None \<Rightarrow> (Some (AttributeError ''name''), s1)
              | Some cname \<Rightarrow>
                  let s2 = set_otherName conn (PyStr cname) s1;
                      s3 = update_user_status username ''busy'' s2;
                      s4 = update_user_status cname ''busy'' s3;
                      s5 = send_message conn (server_userready True cname) s4
                  in (case name (sockets s5 conn) of
                        None \<Rightarrow> (Some (AttributeError ''name''), s5)
                      | Some peer \<Rightarrow>
                          let s6 = send_message connection (server_userready True peer) s5
                          in (None, update_users_list s6))))"

definition handle_quit :: "string \<Rightarrow> conn \<Rightarrow> server \<Rightarrow> error option \<times> server" where
  "handle_quit username connection s =
     (case name (sockets s connection) of
        None \<Rightarrow> (Some (AttributeError ''name''), s)
      | Some cname \<Rightarrow>
          let s1 = (if dict_contains cname (active_connections s)
                    then s\<lparr>active_connections := dict_pop (Str cname) (active_connections s)\<rparr>
                    else s);
              s2 = (if dict_contains username (online_users s1)
                    then s1\<lparr>online_users := dict_pop (Str username) (online_users s1)\<rparr>
                    else s1)
          in (None, update_users_list s2))"

section \<open>The endpoint\<close>

text \<open>\<^verbatim>\<open>data[key]\<close> raises \<^verbatim>\<open>KeyError\<close> on a missing key; the continuation runs on the value.\<close>

definition require ::
  "string \<Rightarrow> 'a option \<Rightarrow> server \<Rightarrow> ('a \<Rightarrow> error option \<times> server) \<Rightarrow> error option \<times> server" where
  "require key field s k = (case field of None \<Rightarrow> (Some (KeyError key), s) | Some v \<Rightarrow> k v)"

text \<open>One round of the \<^verbatim>\<open>while True\<close> loop of \<^verbatim>\<open>websocket_endpoint\<close> on a received
  dictionary. An exception in the result leaves the loop: the only \<^verbatim>\<open>except\<close> clause is for
  \<^verbatim>\<open>WebSocketDisconnect\<close>. In the default case the message text is built by \<^verbatim>\<open>+\<close> on
  \<^verbatim>\<open>a_type\<close>, which raises \<^verbatim>\<open>TypeError\<close> when \<^verbatim>\<open>a_type\<close> is \<^verbatim>\<open>None\<close>.\<close>

definition on_message :: "envelope \<Rightarrow> conn \<Rightarrow> server \<Rightarrow> error option \<times> server" where
  "on_message data connection s =
     (case msg_type data of
        None \<Rightarrow> (Some TypeError, s)
      | Some a_type \<Rightarrow>
          if a_type = ''login'' then
            require ''name'' (msg_name data) s (\<lambda>username. login_user username connection s)
          else if a_type = ''offer'' then
            require ''name'' (msg_name data) s (\<lambda>username.
            require ''offer'' (msg_offer data) s (\<lambda>offer. send_offer username offer connection s))
          else if a_type = ''answer'' then
            require ''name'' (msg_name data) s (\<lambda>username.
            require ''answer'' (msg_answer data) s (\<lambda>answer. send_answer username answer s))
          else if a_type = ''candidate'' then
            require ''name'' (msg_name data) s (\<lambda>username.
            require ''candidate'' (msg_candidate data) s (\<lambda>candidate.
              send_candidate_request username candidate s))
          else if a_type = ''leave'' then
            require ''name'' (msg_name data) s (\<lambda>username. leave username connection s)
          else if a_type = ''busy'' then
            require ''name'' (msg_name data) s (\<lambda>username. busy username s)
          else if a_type = ''want_to_call'' then
            require ''name'' (msg_name data) s (\<lambda>username. want_to_call username connection s)
          else if a_type = ''ready'' then
            require ''name'' (msg_name data) s (\<lambda>username. handle_ready username connection s)
          else if a_type = ''quit'' then
            require ''name'' (msg_name data) s (\<lambda>username. handle_quit username connection s)
          else if a_type = ''clientping'' then
            (None, send_message connection (server_pong ''pong'') s)
          else
            (None, send_message connection
                     (server_error (''Unrecognized `command`: '' @ a_type)) s))"

text \<open>What the transport does to the server: it accepts a connection, delivers a decoded
  message on it, or reports that the peer has gone. In the last case the socket is already in
  the disconnected state when \<^verbatim>\<open>WebSocketDisconnect\<close> reaches the \<^verbatim>\<open>except\<close> clause.\<close>

datatype event = Accept conn | Receive conn envelope | Closed conn

definition on_disconnect :: "conn \<Rightarrow> server \<Rightarrow> server" where
  "on_disconnect connection s =
     disconnect connection
       (s\<lparr>sockets := (sockets s)(connection :=
                       (sockets s connection)\<lparr>client_state := DISCONNECTED\<rparr>)\<rparr>)"

fun step :: "event \<Rightarrow> server \<Rightarrow> server" where
  "step (Accept c) s = connect c s"
| "step (Receive c data) s = snd (on_message data c s)"
| "step (Closed c) s = on_disconnect c s"

definition run :: "event list \<Rightarrow> server \<Rightarrow> server" where
  "run es s = fold step es s"

section \<open>Observations and example runs\<close>

text \<open>What a call of \<open>send_message\<close> appends to the log.\<close>

definition deliver :: "conn \<Rightarrow> message \<Rightarrow> server \<Rightarrow> (conn \<times> message) list" where
  "deliver c m s = (if client_state (sockets s c) = CONNECTED then [(c, m)] else [])"

text \<open>What a call of \<open>update_users_list\<close> appends to the log: the presence list, once for
  every registered connection that is connected, in registry order.\<close>

definition snapshot :: "server \<Rightarrow> (conn \<times> message) list" where
  "snapshot s =
     map (\<lambda>c. (c, server_userlist (online_users s)))
       (filter (\<lambda>c. client_state (sockets s c) = CONNECTED) (map snd (active_connections s)))"

text \<open>A message that carries a type and a name only.\<close>

definition named :: "string \<Rightarrow> string \<Rightarrow> envelope" where
  "named t n = \<lparr> msg_type = Some t, msg_name = Some n, msg_offer = None,
                 msg_answer = None, msg_candidate = None \<rparr>"

text \<open>Connection 0 has logged in as alice; connection 1 is accepted and not logged in.\<close>

definition alice_only :: server where
  "alice_only = run [Accept 0, Accept 1, Receive 0 (named ''login'' ''alice'')] init"

text \<open>Then connection 1 logs in as bob.\<close>

definition alice_bob :: server where
  "alice_bob = run [Receive 1 (named ''login'' ''bob'')] alice_only"

text \<open>Then alice sends ready for bob.\<close>

definition paired :: server where
  "paired = run [Receive 0 (named ''ready'' ''bob'')] alice_bob"

text \<open>Every connection in the registry has had both attributes assigned.\<close>

definition registry_ok :: "server \<Rightarrow> bool" where
  "registry_ok s =
     list_all (\<lambda>(u, c). name (sockets s c) \<noteq> None \<and> otherName (sockets s c) \<noteq> Unset)
       (active_connections s)"

text \<open>The \<^verbatim>\<open>type\<close> values that have a \<^verbatim>\<open>case\<close> of their own in the endpoint.\<close>

definition commands :: "string list" where
  "commands = [''login'', ''offer'', ''answer'', ''candidate'', ''leave'', ''busy'',
               ''want_to_call'', ''ready'', ''quit'', ''clientping'']"

section \<open>Presence and pairing\<close>

text \<open>The peer name of a user, read through the registry: absent when the user is not
  registered or the registered connection's \<open>otherName\<close> is \<^verbatim>\<open>None\<close>.\<close>

definition peerName :: "server \<Rightarrow> string \<Rightarrow> string option" where
  "peerName s u =
     (case dict_get u (active_connections s) of
        None \<Rightarrow> None
      | Some c \<Rightarrow> (case otherName (sockets s c) of PyStr p \<Rightarrow> Some p | _ \<Rightarrow> None))"

text \<open>The status of a user agrees with its pairing: busy comes with a peer name, online
  comes without one.\<close>

definition status_agrees :: "server \<Rightarrow> string \<Rightarrow> bool" where
  "status_agrees s u =
     ((get_user_status u s = Some ''busy'' \<longrightarrow> peerName s u \<noteq> None) \<and>
      (get_user_status u s = Some ''online'' \<longrightarrow> peerName s u = None))"

text \<open>The connection is, at this moment, the one registered under its own name.\<close>

definition registered_self :: "conn \<Rightarrow> server \<Rightarrow> bool" where
  "registered_self c s =
     (case name (sockets s c) of
        None \<Rightarrow> False
      | Some a \<Rightarrow> dict_get a (active_connections s) = Some c)"

text \<open>The discipline of a client that keeps to one session per connection, as a condition on
  the messages that take effect: a login under a name that is not yet registered comes from a
  connection that is not in the registry; a ready or leave for a registered user comes from a
  connection that is the one registered under its own name (a ready may also come from a
  connection that never logged in; the handler then raises before it touches a registered
  connection); a quit from a connection that has logged in carries that connection's name.
  A message without a type or without a name raises in the endpoint and is not restricted.\<close>

fun allowed :: "event \<Rightarrow> server \<Rightarrow> bool" where
  "allowed (Receive c data) s =
     (case (msg_type data, msg_name data) of
        (Some t, Some n) \<Rightarrow>
          if t = ''login'' then
            dict_contains n (active_connections s) \<or> c \<notin> set (map snd (active_connections s))
          else if t = ''ready'' then
            \<not> dict_contains n (active_connections s) \<or> name (sockets s c) = None \<or>
            registered_self c s
          else if t = ''leave'' then
            \<not> dict_contains n (active_connections s) \<or> registered_self c s
          else if t = ''quit'' then
            name (sockets s c) = None \<or> name (sockets s c) = Some n
          else True
      | _ \<Rightarrow> True)"
| "allowed (Accept c) s = True"
| "allowed (Closed c) s = True"

fun admissible :: "event list \<Rightarrow> server \<Rightarrow> bool" where
  "admissible [] s = True"
| "admissible (e # es) s = (allowed e s \<and> admissible es (step e s))"




text \<open>Alice and bob are paired; alice quits, naming herself.\<close>

definition alice_gone :: server where
  "alice_gone = run [Receive 0 (named ''quit'' ''alice'')] paired"


section \<open>Basic facts\<close>

lemma send_message_eq: "send_message c m s = s\<lparr>sent := sent s @ deliver c m s\<rparr>"
  by (simp add: send_message_def deliver_def)

lemma fold_send_message:
  "fold (\<lambda>c. send_message c m) cs s =
     s\<lparr>sent := sent s @ map (\<lambda>c. (c, m)) (filter (\<lambda>c. client_state (sockets s c) = CONNECTED) cs)\<rparr>"
  by (induction cs arbitrary: s) (simp_all add: send_message_def)

lemma update_users_list_eq: "update_users_list s = s\<lparr>sent := sent s @ snapshot s\<rparr>"
  by (simp add: update_users_list_def broadcast_def fold_send_message snapshot_def)

lemma deliver_sent [simp]: "deliver c m (s\<lparr>sent := x\<rparr>) = deliver c m s"
  by (simp add: deliver_def)

lemma snapshot_sent [simp]: "snapshot (s\<lparr>sent := x\<rparr>) = snapshot s"
  by (simp add: snapshot_def)

lemma dict_set_fresh: "map_of d k = None \<Longrightarrow> dict_set k v d = d @ [(k, v)]"
  by (induction d) (auto split: if_splits)

lemma map_of_dict_set: "map_of (dict_set k v d) k' = (if k' = k then Some v else map_of d k')"
  by (induction d) auto

text \<open>The example runs, field by field.\<close>

lemmas handler_defs =
  run_def on_message_def require_def named_def init_def connect_def login_user_def
  handle_ready_def handle_quit_def leave_def on_disconnect_def disconnect_def
  register_user_connection_def update_user_status_def set_otherName_def
  send_message_eq update_users_list_eq deliver_def snapshot_def
  dict_contains_def dict_get_def dict_pop_def Let_def

lemma alice_only_fields:
  "active_connections alice_only = [(''alice'', 0)]"
  "online_users alice_only = [(''alice'', ''online'')]"
  "sockets alice_only = (sockets init)
     (0 := \<lparr>client_state = CONNECTED, name = Some ''alice'', otherName = PyNone\<rparr>,
      1 := \<lparr>client_state = CONNECTED, name = None, otherName = Unset\<rparr>)"
  "sent alice_only = [(0, server_login True), (0, server_userlist [(''alice'', ''online'')])]"
  by (auto simp add: alice_only_def handler_defs)

section \<open>Login\<close>

text \<open>
  C5. A login with a name that is already a key of the registry sends
  \<open>server_login False\<close> to the caller and changes nothing else: registry, presence list and
  every connection object stay as they are, and no presence list is broadcast. A login with a
  name that is not registered appends the caller to the registry under that name, sets the
  caller's \<open>name\<close> and clears its \<open>otherName\<close>, records the status online, sends
  \<open>server_login True\<close> to the caller and then broadcasts the presence list. (A message is
  written to a connection only while that connection is connected, see \<open>deliver\<close>.)
\<close>

theorem login_user_spec:
  assumes "login_user N c s = (e, s')"
  shows "e = None \<and>
    (dict_contains N (active_connections s) \<longrightarrow>
       active_connections s' = active_connections s \<and> online_users s' = online_users s \<and>
       sockets s' = sockets s \<and> sent s' = sent s @ deliver c (server_login False) s) \<and>
    (\<not> dict_contains N (active_connections s) \<longrightarrow>
       active_connections s' = active_connections s @ [(N, c)] \<and>
       online_users s' = dict_set N ''online'' (online_users s) \<and>
       get_user_status N s' = Some ''online'' \<and>
       sockets s' = (sockets s)(c := (sockets s c)\<lparr>name := Some N, otherName := PyNone\<rparr>) \<and>
       sent s' = sent s @ deliver c (server_login True) s @ snapshot s')"
proof (cases "dict_contains N (active_connections s)")
  case True
  with assms show ?thesis
    by (auto simp: login_user_def send_message_eq)
next
  case False
  then have "map_of (active_connections s) N = None"
    by (simp add: dict_contains_def dict_get_def)
  with assms False show ?thesis
    by (auto simp: login_user_def Let_def send_message_eq update_users_list_eq
        register_user_connection_def update_user_status_def get_user_status_def
        dict_get_def map_of_dict_set dict_set_fresh deliver_def)
qed

text \<open>Connection 1 tries alice's name and is refused; then it logs in as bob.\<close>

theorem login_user_spec_witness:
  "dict_contains ''alice'' (active_connections alice_only) \<and>
   login_user ''alice'' 1 alice_only =
     (None, alice_only\<lparr>sent := sent alice_only @ [(1, server_login False)]\<rparr>) \<and>
   \<not> dict_contains ''bob'' (active_connections alice_only) \<and>
   fst (login_user ''bob'' 1 alice_only) = None \<and>
   active_connections (snd (login_user ''bob'' 1 alice_only)) = [(''alice'', 0), (''bob'', 1)] \<and>
   online_users (snd (login_user ''bob'' 1 alice_only)) =
     [(''alice'', ''online''), (''bob'', ''online'')] \<and>
   sockets (snd (login_user ''bob'' 1 alice_only)) 1 =
     \<lparr>client_state = CONNECTED, name = Some ''bob'', otherName = PyNone\<rparr> \<and>
   sent (snd (login_user ''bob'' 1 alice_only)) = sent alice_only @
     [(1, server_login True),
      (0, server_userlist [(''alice'', ''online''), (''bob'', ''online'')]),
      (1, server_userlist [(''alice'', ''online''), (''bob'', ''online'')])]"
proof -
  have reg: "dict_contains ''alice'' (active_connections alice_only)"
    and free: "\<not> dict_contains ''bob'' (active_connections alice_only)"
    by (simp_all add: alice_only_fields dict_contains_def dict_get_def)
  obtain e1 s1 where r1: "login_user ''alice'' 1 alice_only = (e1, s1)"
    by (cases "login_user ''alice'' 1 alice_only")
  obtain e2 s2 where r2: "login_user ''bob'' 1 alice_only = (e2, s2)"
    by (cases "login_user ''bob'' 1 alice_only")
  from login_user_spec [OF r1] reg
  have a: "e1 = None" "active_connections s1 = active_connections alice_only"
    "online_users s1 = online_users alice_only" "sockets s1 = sockets alice_only"
    "sent s1 = sent alice_only @ [(1, server_login False)]"
    by (simp_all add: deliver_def alice_only_fields)
  then have "s1 = alice_only\<lparr>sent := sent alice_only @ [(1, server_login False)]\<rparr>"
    by simp
  moreover from login_user_spec [OF r2] free
  have "e2 = None" "active_connections s2 = [(''alice'', 0), (''bob'', 1)]"
    "online_users s2 = [(''alice'', ''online''), (''bob'', ''online'')]"
    "sockets s2 1 = \<lparr>client_state = CONNECTED, name = Some ''bob'', otherName = PyNone\<rparr>"
    "sent s2 = sent alice_only @
     [(1, server_login True),
      (0, server_userlist [(''alice'', ''online''), (''bob'', ''online'')]),
      (1, server_userlist [(''alice'', ''online''), (''bob'', ''online'')])]"
    by (simp_all add: deliver_def snapshot_def alice_only_fields)
  ultimately show ?thesis
    using reg free r1 r2 a by simp
qed

section \<open>Registered connections carry their attributes\<close>

text \<open>\<open>register_user_connection\<close> assigns \<open>name\<close> and \<open>otherName\<close> before a connection
  enters the registry and no handler deletes an attribute, so reading them from a connection
  taken out of the registry never raises.\<close>

lemma set_dict_set: "set (dict_set k v d) \<subseteq> insert (k, v) (set d)"
  by (induction d) (auto split: if_splits)

lemma registry_okI:
  assumes "\<And>u c. (u, c) \<in> set (active_connections s) \<Longrightarrow>
            name (sockets s c) \<noteq> None \<and> otherName (sockets s c) \<noteq> Unset"
  shows "registry_ok s"
  using assms by (auto simp: registry_ok_def list_all_iff)

lemma registry_okD:
  assumes "registry_ok s" "dict_get u (active_connections s) = Some c"
  shows "name (sockets s c) \<noteq> None" "otherName (sockets s c) \<noteq> Unset"
  using assms by (auto simp: registry_ok_def list_all_iff dict_get_def dest!: map_of_SomeD)

lemma registry_ok_sent [simp]: "registry_ok (s\<lparr>sent := x\<rparr>) = registry_ok s"
  by (simp add: registry_ok_def)

lemma registry_ok_online_users [simp]: "registry_ok (s\<lparr>online_users := x\<rparr>) = registry_ok s"
  by (simp add: registry_ok_def)

lemma registry_ok_set_otherName:
  "registry_ok s \<Longrightarrow> v \<noteq> Unset \<Longrightarrow> registry_ok (set_otherName c v s)"
  by (auto simp: registry_ok_def list_all_iff set_otherName_def)

lemma registry_ok_login: "registry_ok s \<Longrightarrow> registry_ok (snd (login_user u c s))"
  using set_dict_set [of u c "active_connections s"]
  by (auto simp: login_user_def Let_def send_message_eq update_users_list_eq
      update_user_status_def register_user_connection_def registry_ok_def list_all_iff)

lemma registry_ok_send_offer: "registry_ok s \<Longrightarrow> registry_ok (snd (send_offer u p c s))"
  by (auto simp: send_offer_def send_message_eq split: option.splits attribute.splits)

lemma registry_ok_send_answer: "registry_ok s \<Longrightarrow> registry_ok (snd (send_answer u p s))"
  by (auto simp: send_answer_def send_message_eq split: option.splits)

lemma registry_ok_send_candidate:
  "registry_ok s \<Longrightarrow> registry_ok (snd (send_candidate_request u p s))"
  by (auto simp: send_candidate_request_def send_message_eq split: option.splits attribute.splits)

lemma registry_ok_busy: "registry_ok s \<Longrightarrow> registry_ok (snd (busy u s))"
  by (auto simp: busy_def send_message_eq split: option.splits)

lemma registry_ok_want_to_call: "registry_ok s \<Longrightarrow> registry_ok (snd (want_to_call u c s))"
  by (auto simp: want_to_call_def send_message_eq split: option.splits attribute.splits)

lemma registry_ok_leave: "registry_ok s \<Longrightarrow> registry_ok (snd (leave u c s))"
  by (auto simp: leave_def Let_def send_message_eq update_users_list_eq update_user_status_def
      set_otherName_def registry_ok_def list_all_iff split: option.splits)

lemma registry_ok_handle_ready: "registry_ok s \<Longrightarrow> registry_ok (snd (handle_ready u c s))"
  by (auto simp: handle_ready_def Let_def send_message_eq update_users_list_eq
      update_user_status_def set_otherName_def registry_ok_def list_all_iff split: option.splits)

lemma registry_ok_handle_quit: "registry_ok s \<Longrightarrow> registry_ok (snd (handle_quit u c s))"
  by (auto simp: handle_quit_def Let_def update_users_list_eq dict_pop_def
      registry_ok_def list_all_iff split: option.splits)

lemma registry_ok_on_message: "registry_ok s \<Longrightarrow> registry_ok (snd (on_message d c s))"
  by (simp add: on_message_def require_def send_message_eq registry_ok_login
      registry_ok_send_offer registry_ok_send_answer registry_ok_send_candidate registry_ok_busy
      registry_ok_want_to_call registry_ok_leave registry_ok_handle_ready
      registry_ok_handle_quit split: option.splits)

lemma registry_ok_step: "registry_ok s \<Longrightarrow> registry_ok (step e s)"
proof (cases e)
  case (Accept c)
  assume "registry_ok s"
  with Accept show ?thesis
    by (auto simp: connect_def registry_ok_def list_all_iff)
next
  case (Receive c d)
  assume "registry_ok s"
  with Receive show ?thesis
    by (simp add: registry_ok_on_message)
next
  case (Closed c)
  assume "registry_ok s"
  with Closed show ?thesis
    by (auto simp: on_disconnect_def disconnect_def dict_pop_def registry_ok_def list_all_iff)
qed

lemma registry_ok_run: "registry_ok s \<Longrightarrow> registry_ok (run es s)"
  unfolding run_def by (induction es arbitrary: s) (simp_all add: registry_ok_step)

lemma registry_ok_init: "registry_ok init"
  by (simp add: registry_ok_def init_def)

lemma registry_ok_reachable: "registry_ok (run es init)"
  by (simp add: registry_ok_run registry_ok_init)

section \<open>More example runs\<close>

lemma alice_bob_fields:
  "active_connections alice_bob = [(''alice'', 0), (''bob'', 1)]"
  "online_users alice_bob = [(''alice'', ''online''), (''bob'', ''online'')]"
  "sockets alice_bob = (sockets init)
     (0 := \<lparr>client_state = CONNECTED, name = Some ''alice'', otherName = PyNone\<rparr>,
      1 := \<lparr>client_state = CONNECTED, name = Some ''bob'', otherName = PyNone\<rparr>)"
  by (auto simp add: alice_bob_def alice_only_fields handler_defs)

lemma paired_fields:
  "active_connections paired = [(''alice'', 0), (''bob'', 1)]"
  "online_users paired = [(''alice'', ''busy''), (''bob'', ''busy'')]"
  "sockets paired = (sockets init)
     (0 := \<lparr>client_state = CONNECTED, name = Some ''alice'', otherName = PyStr ''bob''\<rparr>,
      1 := \<lparr>client_state = CONNECTED, name = Some ''bob'', otherName = PyStr ''alice''\<rparr>)"
  by (auto simp add: paired_def alice_bob_fields handler_defs)

lemma alice_bob_run:
  "alice_bob = run [Accept 0, Accept 1, Receive 0 (named ''login'' ''alice''),
                    Receive 1 (named ''login'' ''bob'')] init"
  by (simp add: alice_bob_def alice_only_def run_def)

lemma paired_run:
  "paired = run [Accept 0, Accept 1, Receive 0 (named ''login'' ''alice''),
                 Receive 1 (named ''login'' ''bob''), Receive 0 (named ''ready'' ''bob'')] init"
  by (simp add: paired_def alice_bob_def alice_only_def run_def)

section \<open>Relays and the availability probe\<close>

text \<open>
  In the statements below a user has a live session when its name is a key of the registry,
  a session is paired when its \<open>otherName\<close> is not \<^verbatim>\<open>None\<close>, and a message is sent to a
  connection by \<open>send_message\<close>, which writes it to the socket while the socket is connected
  (\<open>deliver\<close>). The states are those the server reaches from \<open>init\<close> by any sequence of
  events.
\<close>

text \<open>
  C6. An offer from a caller that has logged in (its \<open>name\<close> is assigned): when the target
  name is not registered, \<open>server_nouser False\<close> goes to the caller and nothing else is sent;
  when the target's session is paired, \<open>server_alreadyinroom True\<close> with the target's name
  goes to the caller, not to the target; otherwise \<open>server_offer\<close> with the payload and the
  caller's name goes to the target. Nothing but the log changes.
\<close>

theorem send_offer_spec:
  assumes "s = run es init" and "name (sockets s c) = Some a"
  shows
    "(dict_get B (active_connections s) = None \<longrightarrow>
        send_offer B offer c s = (None, s\<lparr>sent := sent s @ deliver c (server_nouser False) s\<rparr>)) \<and>
     (\<forall>cb. dict_get B (active_connections s) = Some cb \<longrightarrow>
        (otherName (sockets s cb) \<noteq> PyNone \<longrightarrow>
           send_offer B offer c s =
             (None, s\<lparr>sent := sent s @ deliver c (server_alreadyinroom True B) s\<rparr>)) \<and>
        (otherName (sockets s cb) = PyNone \<longrightarrow>
           send_offer B offer c s =
             (None, s\<lparr>sent := sent s @ deliver cb (server_offer offer a) s\<rparr>)))"
proof -
  have ok: "registry_ok s"
    using assms(1) by (simp add: registry_ok_reachable)
  show ?thesis
    using assms(2) registry_okD(2) [OF ok]
    by (auto simp: send_offer_def send_message_eq split: option.splits attribute.splits)
qed

theorem send_offer_spec_witness:
  "alice_bob = run [Accept 0, Accept 1, Receive 0 (named ''login'' ''alice''),
                    Receive 1 (named ''login'' ''bob'')] init \<and>
   name (sockets alice_bob 0) = Some ''alice'' \<and>
   dict_get ''carol'' (active_connections alice_bob) = None \<and>
   send_offer ''carol'' (JStr ''sdp'') 0 alice_bob =
     (None, alice_bob\<lparr>sent := sent alice_bob @ [(0, server_nouser False)]\<rparr>) \<and>
   dict_get ''bob'' (active_connections alice_bob) = Some 1 \<and>
   otherName (sockets alice_bob 1) = PyNone \<and>
   send_offer ''bob'' (JStr ''sdp'') 0 alice_bob =
     (None, alice_bob\<lparr>sent := sent alice_bob @ [(1, server_offer (JStr ''sdp'') ''alice'')]\<rparr>) \<and>
   paired = run [Accept 0, Accept 1, Receive 0 (named ''login'' ''alice''),
                 Receive 1 (named ''login'' ''bob''), Receive 0 (named ''ready'' ''bob'')] init \<and>
   name (sockets paired 0) = Some ''alice'' \<and>
   dict_get ''bob'' (active_connections paired) = Some 1 \<and>
   otherName (sockets paired 1) \<noteq> PyNone \<and>
   send_offer ''bob'' (JStr ''sdp'') 0 paired =
     (None, paired\<lparr>sent := sent paired @ [(0, server_alreadyinroom True ''bob'')]\<rparr>)"
proof -
  have n1: "name (sockets alice_bob 0) = Some ''alice''"
    and n2: "name (sockets paired 0) = Some ''alice''"
    by (simp_all add: alice_bob_fields paired_fields)
  show ?thesis
    using send_offer_spec [OF alice_bob_run n1, of "''carol''" "JStr ''sdp''"]
      send_offer_spec [OF alice_bob_run n1, of "''bob''" "JStr ''sdp''"]
      send_offer_spec [OF paired_run n2, of "''bob''" "JStr ''sdp''"]
      alice_bob_run paired_run
    by (simp add: alice_bob_fields paired_fields dict_get_def deliver_def)
qed

text \<open>
  C7. A candidate is handed to the target's connection exactly when the target name is
  registered and the target's session is paired; in every other case the state, the log
  included, is unchanged.
\<close>

theorem send_candidate_request_spec:
  assumes "s = run es init"
  shows "send_candidate_request B candidate s =
    (None, case dict_get B (active_connections s) of
             None \<Rightarrow> s
           | Some cb \<Rightarrow>
               if otherName (sockets s cb) \<noteq> PyNone
               then s\<lparr>sent := sent s @ deliver cb (server_candidate candidate) s\<rparr> else s)"
proof -
  have ok: "registry_ok s"
    using assms(1) by (simp add: registry_ok_reachable)
  show ?thesis
    using registry_okD(2) [OF ok]
    by (auto simp: send_candidate_request_def send_message_eq split: option.splits attribute.splits)
qed

theorem send_candidate_request_spec_witness:
  "paired = run [Accept 0, Accept 1, Receive 0 (named ''login'' ''alice''),
                 Receive 1 (named ''login'' ''bob''), Receive 0 (named ''ready'' ''bob'')] init \<and>
   send_candidate_request ''bob'' (JStr ''ice'') paired =
     (None, paired\<lparr>sent := sent paired @ [(1, server_candidate (JStr ''ice''))]\<rparr>) \<and>
   send_candidate_request ''carol'' (JStr ''ice'') paired = (None, paired) \<and>
   alice_bob = run [Accept 0, Accept 1, Receive 0 (named ''login'' ''alice''),
                    Receive 1 (named ''login'' ''bob'')] init \<and>
   send_candidate_request ''bob'' (JStr ''ice'') alice_bob = (None, alice_bob)"
  using send_candidate_request_spec [OF paired_run, of "''bob''" "JStr ''ice''"]
    send_candidate_request_spec [OF paired_run, of "''carol''" "JStr ''ice''"]
    send_candidate_request_spec [OF alice_bob_run, of "''bob''" "JStr ''ice''"]
    alice_bob_run paired_run
  by (simp add: alice_bob_fields paired_fields dict_get_def deliver_def)

text \<open>
  C8. The probe \<open>want_to_call\<close> answers the caller with \<open>server_nouser False\<close> when the target
  is not registered, with \<open>server_alreadyinroom True\<close> when the target's session is paired and
  the target's status is busy, and with \<open>server_alreadyinroom False\<close> otherwise. It sends
  that one message and changes nothing else: registry, presence list and connection objects
  are as before and no presence list is broadcast.
\<close>

theorem want_to_call_spec:
  assumes "s = run es init"
  shows "want_to_call B c s =
    (None, s\<lparr>sent := sent s @ deliver c
       (case dict_get B (active_connections s) of
          None \<Rightarrow> server_nouser False
        | Some cb \<Rightarrow>
            server_alreadyinroom
              (otherName (sockets s cb) \<noteq> PyNone \<and> get_user_status B s = Some ''busy'') B) s\<rparr>)"
proof -
  have ok: "registry_ok s"
    using assms(1) by (simp add: registry_ok_reachable)
  show ?thesis
    using registry_okD(2) [OF ok]
    by (auto simp: want_to_call_def send_message_eq split: option.splits attribute.splits)
qed

theorem want_to_call_spec_witness:
  "paired = run [Accept 0, Accept 1, Receive 0 (named ''login'' ''alice''),
                 Receive 1 (named ''login'' ''bob''), Receive 0 (named ''ready'' ''bob'')] init \<and>
   want_to_call ''bob'' 0 paired =
     (None, paired\<lparr>sent := sent paired @ [(0, server_alreadyinroom True ''bob'')]\<rparr>) \<and>
   want_to_call ''carol'' 0 paired =
     (None, paired\<lparr>sent := sent paired @ [(0, server_nouser False)]\<rparr>) \<and>
   alice_bob = run [Accept 0, Accept 1, Receive 0 (named ''login'' ''alice''),
                    Receive 1 (named ''login'' ''bob'')] init \<and>
   want_to_call ''bob'' 0 alice_bob =
     (None, alice_bob\<lparr>sent := sent alice_bob @ [(0, server_alreadyinroom False ''bob'')]\<rparr>)"
  using want_to_call_spec [OF paired_run, of "''bob''" 0]
    want_to_call_spec [OF paired_run, of "''carol''" 0]
    want_to_call_spec [OF alice_bob_run, of "''bob''" 0]
    alice_bob_run paired_run
  by (simp add: alice_bob_fields paired_fields dict_get_def deliver_def get_user_status_def)

section \<open>Frame lemmas for the handlers\<close>

lemma map_of_dict_pop:
  "map_of (dict_pop (Str k) d) k' = (if k' = k then None else map_of d k')"
  by (induction d) (auto simp: dict_pop_def)

lemma dict_pop_absent: "map_of d k = None \<Longrightarrow> dict_pop (Str k) d = d"
  by (induction d) (auto simp: dict_pop_def split: if_splits)

lemma dict_pop_Socket: "dict_pop (Socket c) d = d"
  by (simp add: dict_pop_def case_prod_unfold)

lemma disconnect_noop: "disconnect c s = s"
  by (simp add: disconnect_def dict_pop_Socket)

lemma handle_quit_result:
  assumes "name (sockets s c) = Some a"
  shows "handle_quit N c s =
    (None, update_users_list
       (s\<lparr>active_connections := dict_pop (Str a) (active_connections s),
          online_users := dict_pop (Str N) (online_users s)\<rparr>))"
  using assms
  by (simp add: handle_quit_def Let_def dict_contains_def dict_get_def dict_pop_absent)

lemma set_otherName_fields [simp]:
  "name (sockets (set_otherName c v s) c') = name (sockets s c')"
  "client_state (sockets (set_otherName c v s) c') = client_state (sockets s c')"
  "otherName (sockets (set_otherName c v s) c') = (if c' = c then v else otherName (sockets s c'))"
  "active_connections (set_otherName c v s) = active_connections s"
  "online_users (set_otherName c v s) = online_users s"
  "sent (set_otherName c v s) = sent s"
  by (simp_all add: set_otherName_def)


lemma update_user_status_fields [simp]:
  "sockets (update_user_status u st s) = sockets s"
  "active_connections (update_user_status u st s) = active_connections s"
  "online_users (update_user_status u st s) = dict_set u st (online_users s)"
  "sent (update_user_status u st s) = sent s"
  by (simp_all add: update_user_status_def)

lemma deliver_cong:
  "client_state (sockets s' c) = client_state (sockets s c) \<Longrightarrow> deliver c m s' = deliver c m s"
  by (simp add: deliver_def)

lemma deliver_frame [simp]:
  "deliver c m (set_otherName c' v s) = deliver c m s"
  "deliver c m (update_user_status u st s) = deliver c m s"
  by (simp_all add: deliver_def)


section \<open>Ready\<close>






section \<open>Quit\<close>

text \<open>
  C4. The claim is that every quit message removes the sender's own registry entry and the
  sender's own presence entry, and no entry of another session. The handler pops the registry
  under the sender's \<open>name\<close> attribute, but the presence list under the name carried by the
  message. With alice and bob logged in, alice sends quit naming bob: alice leaves the
  registry and is still listed online, while bob, who is still registered, is no longer
  listed.
\<close>

theorem quit_names_other_user:
  "name (sockets alice_bob 0) = Some ''alice'' \<and>
   dict_get ''alice'' (active_connections alice_bob) = Some 0 \<and>
   get_user_status ''alice'' alice_bob = Some ''online'' \<and>
   get_user_status ''bob'' alice_bob = Some ''online'' \<and>
   get_user_status ''alice'' (step (Receive 0 (named ''quit'' ''bob'')) alice_bob) = Some ''online'' \<and>
   get_user_status ''bob'' (step (Receive 0 (named ''quit'' ''bob'')) alice_bob) = None \<and>
   active_connections (step (Receive 0 (named ''quit'' ''bob'')) alice_bob) = [(''bob'', 1)] \<and>
   online_users (step (Receive 0 (named ''quit'' ''bob'')) alice_bob) = [(''alice'', ''online'')]"
  by (simp add: alice_bob_fields get_user_status_def handler_defs)

text \<open>When the message carries the sender's \<open>name\<close>, both keys are the same: the registry and
  the presence list each lose the entry of that name and no other, no connection object
  changes, and the presence list is broadcast to the connections that remain registered.\<close>

lemma handle_quit_own_name:
  assumes "handle_quit a c s = (e, s')" and "name (sockets s c) = Some a"
  shows "e = None \<and>
    active_connections s' = dict_pop (Str a) (active_connections s) \<and>
    online_users s' = dict_pop (Str a) (online_users s) \<and>
    dict_get a (active_connections s') = None \<and> get_user_status a s' = None \<and>
    (\<forall>u. u \<noteq> a \<longrightarrow> dict_get u (active_connections s') = dict_get u (active_connections s) \<and>
                   get_user_status u s' = get_user_status u s) \<and>
    sockets s' = sockets s \<and> sent s' = sent s @ snapshot s'"
  using assms(1) unfolding handle_quit_result [OF assms(2)]
  by (auto simp: update_users_list_eq get_user_status_def dict_get_def map_of_dict_pop)

text \<open>
  The claim C10 ends with the survivor being left permanently paired to the departed user.
  Quit leaves the pairing in place, but the next leave undoes it: below alice quits, bob is
  still busy with \<open>otherName\<close> alice, and after bob's own leave message his \<open>otherName\<close> is
  \<^verbatim>\<open>None\<close> and his status is online.
\<close>

lemma alice_gone_fields:
  "active_connections alice_gone = [(''bob'', 1)]"
  "online_users alice_gone = [(''bob'', ''busy'')]"
  "sockets alice_gone = sockets paired"
  by (auto simp add: alice_gone_def paired_fields handler_defs)




section \<open>Transport disconnect\<close>

text \<open>The \<^verbatim>\<open>except\<close> clause calls \<open>disconnect\<close>, which looks the connection object up among
  the string keys of the registry and so removes nothing; the presence list is not touched and
  nothing is broadcast.\<close>

lemma disconnect_general:
  "active_connections (step (Closed c) s) = active_connections s"
  "online_users (step (Closed c) s) = online_users s"
  "sent (step (Closed c) s) = sent s"
  by (simp_all add: on_disconnect_def disconnect_noop)

text \<open>
  C3. With alice and bob logged in, the transport reports that alice's connection is gone.
  Alice keeps her registry entry and her status, and nothing is sent; the quit message from
  the same state removes both entries and broadcasts the new presence list to bob.
\<close>

theorem disconnect_keeps_session:
  "dict_get ''alice'' (active_connections (step (Closed 0) alice_bob)) = Some 0 \<and>
   get_user_status ''alice'' (step (Closed 0) alice_bob) = Some ''online'' \<and>
   active_connections (step (Closed 0) alice_bob) = active_connections alice_bob \<and>
   online_users (step (Closed 0) alice_bob) = online_users alice_bob \<and>
   sent (step (Closed 0) alice_bob) = sent alice_bob \<and>
   active_connections (step (Receive 0 (named ''quit'' ''alice'')) alice_bob) = [(''bob'', 1)] \<and>
   online_users (step (Receive 0 (named ''quit'' ''alice'')) alice_bob) = [(''bob'', ''online'')] \<and>
   sent (step (Receive 0 (named ''quit'' ''alice'')) alice_bob) =
     sent alice_bob @ [(1, server_userlist [(''bob'', ''online'')])]"
  by (simp add: alice_bob_fields get_user_status_def handler_defs)

section \<open>The dispatcher\<close>

lemma on_message_known:
  "msg_type data = Some ''login'' \<Longrightarrow> on_message data c s =
     require ''name'' (msg_name data) s (\<lambda>username. login_user username c s)"
  "msg_type data = Some ''offer'' \<Longrightarrow> on_message data c s =
     require ''name'' (msg_name data) s (\<lambda>username.
     require ''offer'' (msg_offer data) s (\<lambda>offer. send_offer username offer c s))"
  "msg_type data = Some ''answer'' \<Longrightarrow> on_message data c s =
     require ''name'' (msg_name data) s (\<lambda>username.
     require ''answer'' (msg_answer data) s (\<lambda>answer. send_answer username answer s))"
  "msg_type data = Some ''candidate'' \<Longrightarrow> on_message data c s =
     require ''name'' (msg_name data) s (\<lambda>username.
     require ''candidate'' (msg_candidate data) s (\<lambda>candidate.
       send_candidate_request username candidate s))"
  "msg_type data = Some ''leave'' \<Longrightarrow> on_message data c s =
     require ''name'' (msg_name data) s (\<lambda>username. leave username c s)"
  "msg_type data = Some ''busy'' \<Longrightarrow> on_message data c s =
     require ''name'' (msg_name data) s (\<lambda>username. busy username s)"
  "msg_type data = Some ''want_to_call'' \<Longrightarrow> on_message data c s =
     require ''name'' (msg_name data) s (\<lambda>username. want_to_call username c s)"
  "msg_type data = Some ''ready'' \<Longrightarrow> on_message data c s =
     require ''name'' (msg_name data) s (\<lambda>username. handle_ready username c s)"
  "msg_type data = Some ''quit'' \<Longrightarrow> on_message data c s =
     require ''name'' (msg_name data) s (\<lambda>username. handle_quit username c s)"
  "msg_type data = Some ''clientping'' \<Longrightarrow> on_message data c s =
     (None, send_message c (server_pong ''pong'') s)"
  by (simp_all add: on_message_def)

lemma on_message_unknown:
  "msg_type data = Some t \<Longrightarrow> t \<notin> set commands \<Longrightarrow> on_message data c s =
     (None, send_message c (server_error (''Unrecognized `command`: '' @ t)) s)"
  by (simp add: on_message_def commands_def)

text \<open>
  The claim C9 says that a message of a known type that lacks a required field
  is answered with an error message and that nothing escapes the loop. The endpoint reads the
  fields with \<^verbatim>\<open>data['name']\<close> and has no \<^verbatim>\<open>except\<close> clause for \<^verbatim>\<open>KeyError\<close>: below, a login
  message without a name raises \<^verbatim>\<open>KeyError\<close> out of the loop and nothing is sent.
\<close>

theorem missing_field_counterexample:
  "msg_type \<lparr>msg_type = Some ''login'', msg_name = None, msg_offer = None,
             msg_answer = None, msg_candidate = None\<rparr> = Some ''login'' \<and>
   on_message \<lparr>msg_type = Some ''login'', msg_name = None, msg_offer = None,
               msg_answer = None, msg_candidate = None\<rparr> 1 alice_only =
     (Some (KeyError ''name''), alice_only)"
  by (simp add: on_message_known require_def)

text \<open>
  C9, as amended: for every message whose \<^verbatim>\<open>type\<close> is a string \<open>t\<close>, when \<open>t\<close> is none of the
  ten commands, \<open>server_error\<close> with the text \<^verbatim>\<open>Unrecognized `command`: \<close> followed by \<open>t\<close>
  is sent to the sender and nothing else changes; \<^verbatim>\<open>clientping\<close> is answered with
  \<open>server_pong\<close>; a command whose required fields are all present runs its handler on
  them, and the result is the handler's result; a command that lacks \<^verbatim>\<open>name\<close>, or has the
  name and lacks its payload field, raises \<^verbatim>\<open>KeyError\<close> for the first missing key and leaves
  the state as it was.
\<close>

theorem on_message_spec:
  assumes "msg_type data = Some t"
  shows
   "(t \<notin> set commands \<longrightarrow>
       on_message data c s =
         (None, s\<lparr>sent := sent s @ deliver c (server_error (''Unrecognized `command`: '' @ t)) s\<rparr>)) \<and>
    (t = ''clientping'' \<longrightarrow>
       on_message data c s = (None, s\<lparr>sent := sent s @ deliver c (server_pong ''pong'') s\<rparr>)) \<and>
    (t \<in> set commands \<and> t \<noteq> ''clientping'' \<and> msg_name data = None \<longrightarrow>
       on_message data c s = (Some (KeyError ''name''), s)) \<and>
    (t = ''offer'' \<and> msg_name data \<noteq> None \<and> msg_offer data = None \<longrightarrow>
       on_message data c s = (Some (KeyError ''offer''), s)) \<and>
    (t = ''answer'' \<and> msg_name data \<noteq> None \<and> msg_answer data = None \<longrightarrow>
       on_message data c s = (Some (KeyError ''answer''), s)) \<and>
    (t = ''candidate'' \<and> msg_name data \<noteq> None \<and> msg_candidate data = None \<longrightarrow>
       on_message data c s = (Some (KeyError ''candidate''), s)) \<and>
    (\<forall>n. msg_name data = Some n \<longrightarrow>
       (t = ''login'' \<longrightarrow> on_message data c s = login_user n c s) \<and>
       (t = ''leave'' \<longrightarrow> on_message data c s = leave n c s) \<and>
       (t = ''busy'' \<longrightarrow> on_message data c s = busy n s) \<and>
       (t = ''want_to_call'' \<longrightarrow> on_message data c s = want_to_call n c s) \<and>
       (t = ''ready'' \<longrightarrow> on_message data c s = handle_ready n c s) \<and>
       (t = ''quit'' \<longrightarrow> on_message data c s = handle_quit n c s) \<and>
       (\<forall>p. t = ''offer'' \<and> msg_offer data = Some p \<longrightarrow>
          on_message data c s = send_offer n p c s) \<and>
       (\<forall>p. t = ''answer'' \<and> msg_answer data = Some p \<longrightarrow>
          on_message data c s = send_answer n p s) \<and>
       (\<forall>p. t = ''candidate'' \<and> msg_candidate data = Some p \<longrightarrow>
          on_message data c s = send_candidate_request n p s))"
proof -
  have unknown: "t \<notin> set commands \<longrightarrow>
       on_message data c s =
         (None, s\<lparr>sent := sent s @ deliver c (server_error (''Unrecognized `command`: '' @ t)) s\<rparr>)"
    using assms by (simp add: on_message_unknown send_message_eq)
  have ping: "t = ''clientping'' \<longrightarrow>
       on_message data c s = (None, s\<lparr>sent := sent s @ deliver c (server_pong ''pong'') s\<rparr>)"
    using assms by (simp add: on_message_known send_message_eq)
  have no_name: "t \<in> set commands \<and> t \<noteq> ''clientping'' \<and> msg_name data = None \<longrightarrow>
       on_message data c s = (Some (KeyError ''name''), s)"
  proof (intro impI, elim conjE)
    assume "t \<in> set commands" and "t \<noteq> ''clientping''" and n: "msg_name data = None"
    then consider "t = ''login''" | "t = ''offer''" | "t = ''answer''" | "t = ''candidate''"
      | "t = ''leave''" | "t = ''busy''" | "t = ''want_to_call''" | "t = ''ready''" | "t = ''quit''"
      unfolding commands_def by fastforce
    then show "on_message data c s = (Some (KeyError ''name''), s)"
      using assms n by cases (simp_all add: on_message_known require_def)
  qed
  have no_payload:
    "t = ''offer'' \<and> msg_name data \<noteq> None \<and> msg_offer data = None \<longrightarrow>
       on_message data c s = (Some (KeyError ''offer''), s)"
    "t = ''answer'' \<and> msg_name data \<noteq> None \<and> msg_answer data = None \<longrightarrow>
       on_message data c s = (Some (KeyError ''answer''), s)"
    "t = ''candidate'' \<and> msg_name data \<noteq> None \<and> msg_candidate data = None \<longrightarrow>
       on_message data c s = (Some (KeyError ''candidate''), s)"
    using assms by (auto simp: on_message_known require_def)
  have invoke: "(t = ''login'' \<longrightarrow> on_message data c s = login_user n c s) \<and>
       (t = ''leave'' \<longrightarrow> on_message data c s = leave n c s) \<and>
       (t = ''busy'' \<longrightarrow> on_message data c s = busy n s) \<and>
       (t = ''want_to_call'' \<longrightarrow> on_message data c s = want_to_call n c s) \<and>
       (t = ''ready'' \<longrightarrow> on_message data c s = handle_ready n c s) \<and>
       (t = ''quit'' \<longrightarrow> on_message data c s = handle_quit n c s) \<and>
       (\<forall>p. t = ''offer'' \<and> msg_offer data = Some p \<longrightarrow>
          on_message data c s = send_offer n p c s) \<and>
       (\<forall>p. t = ''answer'' \<and> msg_answer data = Some p \<longrightarrow>
          on_message data c s = send_answer n p s) \<and>
       (\<forall>p. t = ''candidate'' \<and> msg_candidate data = Some p \<longrightarrow>
          on_message data c s = send_candidate_request n p s)"
    if "msg_name data = Some n" for n
    using assms that by (auto simp: on_message_known require_def)
  from unknown ping no_name no_payload invoke show ?thesis
    by blast
qed

theorem on_message_spec_witness:
  "on_message (named ''hello'' ''bob'') 1 alice_only =
     (None, alice_only\<lparr>sent := sent alice_only @
        [(1, server_error ''Unrecognized `command`: hello'')]\<rparr>) \<and>
   on_message (named ''clientping'' ''bob'') 1 alice_only =
     (None, alice_only\<lparr>sent := sent alice_only @ [(1, server_pong ''pong'')]\<rparr>) \<and>
   on_message (named ''login'' ''bob'') 1 alice_only = login_user ''bob'' 1 alice_only \<and>
   on_message ((named ''offer'' ''alice'')\<lparr>msg_offer := Some (JStr ''sdp'')\<rparr>) 1 alice_only =
     send_offer ''alice'' (JStr ''sdp'') 1 alice_only \<and>
   on_message ((named ''login'' ''bob'')\<lparr>msg_name := None\<rparr>) 1 alice_only =
     (Some (KeyError ''name''), alice_only) \<and>
   on_message (named ''offer'' ''alice'') 1 alice_only = (Some (KeyError ''offer''), alice_only)"
proof -
  have ty: "msg_type (named t n) = Some t" for t n
    by (simp add: named_def)
  have ty2: "msg_type ((named t n)\<lparr>msg_offer := x\<rparr>) = Some t"
    "msg_type ((named t n)\<lparr>msg_name := y\<rparr>) = Some t" for t n x y
    by (simp_all add: named_def)
  have f: "msg_name (named t n) = Some n" "msg_offer (named t n) = None"
    "msg_name ((named t n)\<lparr>msg_offer := x\<rparr>) = Some n" for t n x
    by (simp_all add: named_def)
  have 1: "on_message (named ''hello'' ''bob'') 1 alice_only =
     (None, alice_only\<lparr>sent := sent alice_only @
        [(1, server_error ''Unrecognized `command`: hello'')]\<rparr>)"
    using on_message_spec [OF ty [of "''hello''" "''bob''"], where c = 1 and s = alice_only]
    by (simp add: commands_def deliver_def alice_only_fields)
  have 2: "on_message (named ''clientping'' ''bob'') 1 alice_only =
     (None, alice_only\<lparr>sent := sent alice_only @ [(1, server_pong ''pong'')]\<rparr>)"
    using on_message_spec [OF ty [of "''clientping''" "''bob''"], where c = 1 and s = alice_only]
    by (simp add: deliver_def alice_only_fields)
  have 3: "on_message (named ''login'' ''bob'') 1 alice_only = login_user ''bob'' 1 alice_only"
    using on_message_spec [OF ty [of "''login''" "''bob''"], where c = 1 and s = alice_only]
    by (simp add: f)
  have 4: "on_message ((named ''offer'' ''alice'')\<lparr>msg_offer := Some (JStr ''sdp'')\<rparr>) 1 alice_only =
     send_offer ''alice'' (JStr ''sdp'') 1 alice_only"
    using on_message_spec [OF ty2(1) [where t = "''offer''" and n = "''alice''" and x = "Some (JStr ''sdp'')"],
        where c = 1 and s = alice_only]
    by (simp add: f)
  have 5: "on_message ((named ''login'' ''bob'')\<lparr>msg_name := None\<rparr>) 1 alice_only =
     (Some (KeyError ''name''), alice_only)"
    using on_message_spec [OF ty2(2) [where t = "''login''" and n = "''bob''" and y = None],
        where c = 1 and s = alice_only]
    by (simp add: commands_def)
  have 6: "on_message (named ''offer'' ''alice'') 1 alice_only = (Some (KeyError ''offer''), alice_only)"
    using on_message_spec [OF ty [of "''offer''" "''alice''"], where c = 1 and s = alice_only]
    by (simp add: f)
  from 1 2 3 4 5 6 show ?thesis
    by simp
qed

text \<open>A message without a \<^verbatim>\<open>type\<close> reaches the default case, where building the error text
  raises \<^verbatim>\<open>TypeError\<close>; this is outside the amended statement above.\<close>

lemma missing_type_raises:
  "msg_type data = None \<Longrightarrow> on_message data c s = (Some TypeError, s)"
  by (simp add: on_message_def)

section \<open>Status and pairing\<close>



text \<open>More ways out of the agreement, each by one message after a run that keeps to the
  discipline: a quit that names another user; a leave from a connection that never logged in
  (the handler raises after it has set the target's status); a ready from a connection that
  has quit and is no longer registered; and a leave from a connection that has quit and whose
  name is by now registered to another connection.\<close>

lemma other_guards_needed:
  "\<not> status_agrees (step (Receive 0 (named ''quit'' ''bob'')) paired) ''alice''"
  "\<not> status_agrees (step (Receive 2 (named ''leave'' ''bob'')) (step (Accept 2) paired)) ''bob''"
  "\<not> status_agrees (step (Receive 0 (named ''ready'' ''bob'')) alice_gone) ''alice''"
  "\<not> status_agrees
      (run [Accept 0, Accept 1, Accept 2, Receive 0 (named ''login'' ''alice''),
            Receive 0 (named ''quit'' ''alice''), Receive 2 (named ''login'' ''alice''),
            Receive 1 (named ''login'' ''bob''), Receive 2 (named ''ready'' ''bob''),
            Receive 0 (named ''leave'' ''bob'')] init) ''alice''"
  by (simp_all add: status_agrees_def peerName_def get_user_status_def paired_fields
      alice_gone_fields handler_defs)

text \<open>The runs before those last messages keep to the discipline.\<close>

lemma guard_prefixes_admissible:
  "admissible [Accept 0, Accept 1, Receive 0 (named ''login'' ''alice''),
               Receive 1 (named ''login'' ''bob''), Receive 0 (named ''ready'' ''bob''),
               Accept 2] init"
  "admissible [Accept 0, Accept 1, Receive 0 (named ''login'' ''alice''),
               Receive 1 (named ''login'' ''bob''), Receive 0 (named ''ready'' ''bob''),
               Receive 0 (named ''quit'' ''alice'')] init"
  "admissible [Accept 0, Accept 1, Accept 2, Receive 0 (named ''login'' ''alice''),
               Receive 0 (named ''quit'' ''alice''), Receive 2 (named ''login'' ''alice''),
               Receive 1 (named ''login'' ''bob''), Receive 2 (named ''ready'' ''bob'')] init"
  by (simp_all add: handler_defs registered_self_def)








lemma send_message_fields [simp]:
  "sockets (send_message c m s) = sockets s"
  "active_connections (send_message c m s) = active_connections s"
  "online_users (send_message c m s) = online_users s"
  by (simp_all add: send_message_eq)

lemma update_users_list_fields [simp]:
  "sockets (update_users_list s) = sockets s"
  "active_connections (update_users_list s) = active_connections s"
  "online_users (update_users_list s) = online_users s"
  by (simp_all add: update_users_list_eq)


















end
